theory Spec2Isabelle
  imports Complex_Main "HOL-Library.Sublist"
begin

section \<open>Python values used by the notebook\<close>

text \<open>
  A Python \<open>str\<close> is a sequence of Unicode code points and \<open>len\<close> counts code points,
  so a string is modelled as a list of code points (\<open>nat\<close>). A literal of the source is
  written \<open>str ''...''\<close>; the line feed is the code point 10 and the apostrophe 39.
\<close>

type_synonym py_str = "nat list"

definition str :: "string \<Rightarrow> py_str" where
  "str s = map of_char s"

text \<open>
  The code points that \<open>str.split()\<close> without a separator treats as whitespace:
  U+0009..U+000D, U+001C..U+0020, U+0085, U+00A0, U+1680, U+2000..U+200A, U+2028,
  U+2029, U+202F, U+205F and U+3000.
\<close>

definition py_isspace :: "nat \<Rightarrow> bool" where
  "py_isspace c =
     ((9 \<le> c \<and> c \<le> 13) \<or> (28 \<le> c \<and> c \<le> 32) \<or> c = 133 \<or> c = 160 \<or> c = 5760 \<or>
      (8192 \<le> c \<and> c \<le> 8202) \<or> c = 8232 \<or> c = 8233 \<or> c = 8239 \<or> c = 8287 \<or>
      c = 12288)"

text \<open>
  \<open>text.split()\<close>: the maximal runs of non-whitespace code points, in order. The first
  argument of \<open>split_words\<close> is the word read so far.
\<close>

fun split_words :: "py_str \<Rightarrow> py_str \<Rightarrow> py_str list" where
  "split_words w [] = (if w = [] then [] else [w])"
| "split_words w (c # cs) =
     (if py_isspace c
      then (if w = [] then split_words [] cs else w # split_words [] cs)
      else split_words (w @ [c]) cs)"

definition py_split :: "py_str \<Rightarrow> py_str list" where
  "py_split text = split_words [] text"

text \<open>\<open>sep.join(xs)\<close>.\<close>

fun py_join :: "py_str \<Rightarrow> py_str list \<Rightarrow> py_str" where
  "py_join sep [] = []"
| "py_join sep [x] = x"
| "py_join sep (x # y # ys) = x @ sep @ py_join sep (y # ys)"

text \<open>
  The slice \<open>xs[:k]\<close>: the first \<open>k\<close> elements when \<open>k\<close> is not negative; a negative
  bound counts from the end, so that \<open>xs[:k]\<close> drops the last \<open>-k\<close> elements.
\<close>

definition py_slice_to :: "int \<Rightarrow> 'a list \<Rightarrow> 'a list" where
  "py_slice_to k xs =
     (if 0 \<le> k then take (nat k) xs else take (nat (int (length xs) + k)) xs)"

text \<open>\<open>len\<close> as a Python integer.\<close>

definition len :: "'a list \<Rightarrow> int" where
  "len xs = int (length xs)"

datatype py_error = IndexError

section \<open>Chunker: \<open>split_into_chunks\<close>\<close>

text \<open>
  The loop over the words, with the three variables of the source as arguments:
  \<open>chunks\<close>, \<open>current_chunk\<close> and \<open>current_length\<close>. The first equation is the code
  after the loop.
\<close>

fun chunk_loop :: "int \<Rightarrow> py_str list \<Rightarrow> py_str list \<Rightarrow> py_str list \<Rightarrow> int \<Rightarrow> py_str list" where
  "chunk_loop max_length [] chunks current_chunk current_length =
     (if current_chunk \<noteq> [] then chunks @ [py_join (str '' '') current_chunk] else chunks)"
| "chunk_loop max_length (word # words) chunks current_chunk current_length =
     (if current_length + len word \<le> max_length
      then chunk_loop max_length words chunks (current_chunk @ [word])
             (current_length + (len word + 1))
      else chunk_loop max_length words (chunks @ [py_join (str '' '') current_chunk]) [word]
             (len word + 1))"

definition split_into_chunks :: "py_str \<Rightarrow> int \<Rightarrow> py_str list" where
  "split_into_chunks text max_length = chunk_loop max_length (py_split text) [] [] 0"

section \<open>Ranker: \<open>retrieve_relevant_chunks\<close>\<close>

text \<open>
  The notebook's globals are collaborators outside the repository; they are the fields of
  a record that every operation takes:
  \<^item> \<open>encode\<close> is \<open>model.encode(text).tolist()\<close>, the embedding of a text;
  \<^item> \<open>cosine_similarity\<close> is \<open>cosine_similarity([a], [b])[0][0]\<close> of the library, read
    as a real number;
  \<^item> \<open>collection\<close> is what \<open>collection.iterator(include_vector=True)\<close> enumerates: the
    \<open>content\<close> property and the default vector of each record, in enumeration order;
  \<^item> \<open>qa_pipeline\<close> is \<open>qa_pipeline(prompt, max_length=200, truncation=True)\<close> followed
    by \<open>[0]['generated_text']\<close>.
  A failure inside a collaborator (an unreachable store, vectors of different dimensions)
  is outside the model: the fields are total functions.
\<close>

type_synonym vec = "real list"

record services =
  encode :: "py_str \<Rightarrow> vec"
  cosine_similarity :: "vec \<Rightarrow> vec \<Rightarrow> real"
  collection :: "(py_str \<times> vec) list"
  qa_pipeline :: "py_str \<Rightarrow> py_str"

text \<open>
  \<open>sorted(xs, key=key, reverse=True)\<close>: Python's sort is stable, and \<open>reverse=True\<close>
  sorts as if each comparison were reversed, so elements with equal keys keep their order.
  That is the stable insertion sort of the library on the negated key.
\<close>

definition py_sorted_reverse :: "('a \<Rightarrow> real) \<Rightarrow> 'a list \<Rightarrow> 'a list" where
  "py_sorted_reverse key xs = sort_key (\<lambda>x. - key x) xs"

text \<open>The loop that appends \<open>(content, similarity)\<close> for every record of the collection.\<close>

definition scored_chunks :: "services \<Rightarrow> py_str \<Rightarrow> (py_str \<times> real) list" where
  "scored_chunks sv query =
     (let query_vector = encode sv query
      in map (\<lambda>(content, vector). (content, cosine_similarity sv query_vector vector))
           (collection sv))"

text \<open>\<open>sorted(chunks, key=lambda x: x[1], reverse=True)[:top_k]\<close>, the ranked pairs.\<close>

definition ranked_chunks :: "services \<Rightarrow> py_str \<Rightarrow> int \<Rightarrow> (py_str \<times> real) list" where
  "ranked_chunks sv query top_k =
     py_slice_to top_k (py_sorted_reverse snd (scored_chunks sv query))"

text \<open>\<open>top_chunks\<close>: the contents of the ranked pairs. The debug output is not modelled.\<close>

definition retrieve_relevant_chunks :: "services \<Rightarrow> py_str \<Rightarrow> int \<Rightarrow> py_str list" where
  "retrieve_relevant_chunks sv query top_k = map fst (ranked_chunks sv query top_k)"

section \<open>Answer orchestration: \<open>answer_question\<close>\<close>

text \<open>The f-string of the prompt, with its line feeds and its indentation of eight spaces.\<close>

definition build_prompt :: "py_str \<Rightarrow> py_str \<Rightarrow> py_str" where
  "build_prompt context query =
     [10] @
     str ''        You are an helpfull assistant. Use the following context from a book to answer the user''
       @ [39] @ str ''s question.'' @ [10] @
     str ''        Only if you don'' @ [39]
       @ str ''t know the answer just say that you need more information.'' @ [10] @
     [10] @
     str ''        Context:'' @ [10] @
     str ''        '' @ context @ [10] @
     [10] @
     str ''        Use 5 sentences minimum and keep the answer concise and accurate.'' @ [10] @
     [10] @
     str ''        Question: '' @ query @ [10] @
     str ''        Answer:''"

text \<open>\<open>relevant_chunks\<close>, \<open>context\<close> and the generated text of a query (\<open>top = 5\<close>).\<close>

definition relevant_chunks :: "services \<Rightarrow> py_str \<Rightarrow> py_str list" where
  "relevant_chunks sv query = retrieve_relevant_chunks sv query 5"

definition qa_context :: "services \<Rightarrow> py_str \<Rightarrow> py_str" where
  "qa_context sv query = py_join [10] (py_slice_to 5 (relevant_chunks sv query))"

definition generated_text :: "services \<Rightarrow> py_str \<Rightarrow> py_str" where
  "generated_text sv query = qa_pipeline sv (build_prompt (qa_context sv query) query)"

text \<open>
  The result is the returned string, or the \<open>IndexError\<close> that \<open>relevant_chunks[0]\<close>
  raises on an empty list.
\<close>

definition answer_question :: "services \<Rightarrow> py_str \<Rightarrow> py_error + py_str" where
  "answer_question sv query =
     (if len (generated_text sv query) < 10
      then (case relevant_chunks sv query of
              [] \<Rightarrow> Inl IndexError
            | fallback_chunk # _ \<Rightarrow>
                Inr (generated_text sv query @ str '' (Additional context: '' @
                     py_slice_to 200 fallback_chunk @ str ''...)''))
      else Inr (generated_text sv query))"

section \<open>Sample collaborators for concrete runs\<close>

text \<open>
  On vectors of length 1 the cosine similarity is the dot product; the sample vectors
  below have length 1. The query vector is \<open>[1, 0]\<close>, so the three records score 1, 0 and
  3/5.
\<close>

definition dot :: "vec \<Rightarrow> vec \<Rightarrow> real" where
  "dot a b = sum_list (map2 (*) a b)"

definition encode_east :: "py_str \<Rightarrow> vec" where
  "encode_east text = [1, 0]"

definition three_records :: "(py_str \<times> vec) list" where
  "three_records =
     [(str ''one'', [1, 0]), (str ''two'', [0, 1]), (str ''three'', [3 / 5, 4 / 5])]"

text \<open>The three records enumerated with the best-scoring one last.\<close>

definition records_best_last :: "(py_str \<times> vec) list" where
  "records_best_last =
     [(str ''two'', [0, 1]), (str ''three'', [3 / 5, 4 / 5]), (str ''one'', [1, 0])]"

text \<open>Three records of which the first and the last score the same.\<close>

definition tied_records :: "(py_str \<times> vec) list" where
  "tied_records = [(str ''first'', [1, 0]), (str ''other'', [0, 1]), (str ''last'', [1, 0])]"

text \<open>One record whose content is 250 times the letter \<open>x\<close>.\<close>

definition long_record :: "(py_str \<times> vec) list" where
  "long_record = [(replicate 250 120, [1, 0])]"

definition answer_nothing :: "py_str \<Rightarrow> py_str" where
  "answer_nothing prompt = []"

definition answer_briefly :: "py_str \<Rightarrow> py_str" where
  "answer_briefly prompt = str ''Harry.''"

definition answer_at_length :: "py_str \<Rightarrow> py_str" where
  "answer_at_length prompt = str ''Harry is a wizard.''"

definition sample_services :: "(py_str \<Rightarrow> py_str) \<Rightarrow> (py_str \<times> vec) list \<Rightarrow> services" where
  "sample_services pipeline records =
     \<lparr>encode = encode_east, cosine_similarity = dot, collection = records,
      qa_pipeline = pipeline\<rparr>"

section \<open>Notions used in the statements\<close>

text \<open>A word: a non-empty string without whitespace, as \<open>str.split()\<close> produces them.\<close>

definition is_word :: "py_str \<Rightarrow> bool" where
  "is_word w = (w \<noteq> [] \<and> list_all (\<lambda>c. \<not> py_isspace c) w)"

text \<open>
  A chunk respects the limit when it is longer than \<open>max_length\<close> only if it holds exactly
  one word, and holds two or more words only if it is at most \<open>max_length\<close> long.
\<close>

definition within_limit :: "int \<Rightarrow> py_str \<Rightarrow> bool" where
  "within_limit max_length chunk =
     ((max_length < len chunk \<longrightarrow> length (py_split chunk) = 1) \<and>
      (2 \<le> length (py_split chunk) \<longrightarrow> len chunk \<le> max_length))"

section \<open>Splitting and joining\<close>

lemma str_Nil [simp]: "str [] = []"
  by (simp add: str_def)

lemma str_Cons [simp]: "str (c # cs) = of_char c # str cs"
  by (simp add: str_def)

lemma space_is_space: "py_isspace 32"
  by (simp add: py_isspace_def)

lemma py_split_Nil: "py_split [] = []"
  by (simp add: py_split_def)

lemma split_words_space_append:
  "py_isspace sp \<Longrightarrow> split_words w (a @ sp # b) = split_words w a @ split_words [] b"
  by (induction a arbitrary: w) auto

lemma split_words_no_space:
  "list_all (\<lambda>c. \<not> py_isspace c) a \<Longrightarrow>
   split_words w a = (if w @ a = [] then [] else [w @ a])"
  by (induction a arbitrary: w) auto

lemma split_words_are_words:
  "list_all (\<lambda>c. \<not> py_isspace c) w \<Longrightarrow> list_all is_word (split_words w s)"
  by (induction s arbitrary: w) (auto simp: is_word_def)

lemma py_split_are_words: "list_all is_word (py_split text)"
  by (simp add: py_split_def split_words_are_words)

lemma py_split_word: "is_word w \<Longrightarrow> py_split w = [w]"
  by (simp add: py_split_def is_word_def split_words_no_space)

text \<open>Splitting a text joined with single spaces splits each part.\<close>

lemma py_split_join: "py_split (py_join [32] cs) = concat (map py_split cs)"
proof (induction "[32::nat]" cs rule: py_join.induct)
  case 1
  show ?case by (simp add: py_split_Nil)
next
  case (2 x)
  show ?case by simp
next
  case (3 x y ys)
  then show ?case
    using split_words_space_append [OF space_is_space, of "[]" x "py_join [32] (y # ys)"]
    by (simp add: py_split_def)
qed

lemma py_split_join_words: "list_all is_word ws \<Longrightarrow> py_split (py_join [32] ws) = ws"
  by (induction ws) (simp_all add: py_split_join py_split_Nil py_split_word)

lemma py_join_snoc:
  "py_join sep (xs @ [x]) = (if xs = [] then x else py_join sep xs @ sep @ x)"
  by (induction sep xs rule: py_join.induct) auto

section \<open>Chunker: a concrete packing\<close>

text \<open>
  C3 (as the code computes it). \<open>split_into_chunks("a b c d", 3)\<close> is
  \<open>["a b", "c d"]\<close>: after \<open>"c"\<close> opens the second chunk, \<open>current_length\<close> is 2 and
  \<open>2 + len("d") = 3 \<le> 3\<close>, so \<open>"d"\<close> joins it.
\<close>

theorem split_a_b_c_d_3:
  "split_into_chunks (str ''a b c d'') 3 = [str ''a b'', str ''c d'']"
  by (simp add: split_into_chunks_def py_split_def py_isspace_def len_def)

text \<open>
  C3 (as stated) fails: the result is not the three chunks \<open>["a b", "c", "d"]\<close>.
\<close>

theorem split_a_b_c_d_3_not_three_chunks:
  "split_into_chunks (str ''a b c d'') 3 \<noteq> [str ''a b'', str ''c'', str ''d'']"
  by (simp add: split_into_chunks_def py_split_def py_isspace_def len_def)

section \<open>Chunker: a text of one word\<close>

text \<open>
  A text that is one word is returned as the only chunk when it fits. When it is longer
  than \<open>max_length\<close> the \<open>else\<close> branch of the loop first appends the join of the still
  empty \<open>current_chunk\<close>, so the result starts with an empty chunk. The code after the loop
  guards the same append with \<open>if current_chunk\<close>.
\<close>

lemma split_into_chunks_single_word:
  "is_word text \<Longrightarrow>
   split_into_chunks text max_length = (if len text \<le> max_length then [text] else [[], text])"
  by (simp add: split_into_chunks_def py_split_word)

lemma split_into_chunks_empty: "split_into_chunks [] max_length = []"
  by (simp add: split_into_chunks_def py_split_Nil)

text \<open>
  C4 (at the input where the code departs from it). The text \<open>"hello"\<close> has no
  whitespace and is longer than \<open>max_length = 3\<close>; the claim asks for the single chunk
  \<open>["hello"]\<close>, the code returns \<open>["", "hello"]\<close>.
\<close>

theorem split_hello_3_leading_empty_chunk:
  "split_into_chunks (str ''hello'') 3 = [[], str ''hello'']"
  by (simp add: split_into_chunks_def py_split_def py_isspace_def len_def)

section \<open>Chunker: the words are kept\<close>

lemma chunk_loop_words:
  "list_all is_word current_chunk \<Longrightarrow> list_all is_word words \<Longrightarrow>
   concat (map py_split (chunk_loop max_length words chunks current_chunk n)) =
   concat (map py_split chunks) @ current_chunk @ words"
proof (induction words arbitrary: chunks current_chunk n)
  case Nil
  then show ?case by (simp add: py_split_join_words)
next
  case (Cons word words)
  then show ?case by (simp add: py_split_join_words)
qed

text \<open>
  C6. For every text and every \<open>max_length\<close>, the chunks joined with single spaces hold
  exactly the words of the text: splitting the joined chunks into words gives the word
  sequence of the text, with no word lost, none duplicated and the order kept. (The
  comparison is between word sequences. As raw strings the joined chunks start with a
  space where the first chunk is empty, see \<open>join_hello_3\<close>.)
\<close>

theorem split_into_chunks_keeps_words:
  "py_split (py_join (str '' '') (split_into_chunks text max_length)) = py_split text"
  using chunk_loop_words [of "[]" "py_split text" max_length "[]" 0]
  by (simp add: split_into_chunks_def py_split_join py_split_are_words)

lemma join_hello_3: "py_join (str '' '') (split_into_chunks (str ''hello'') 3) = str '' hello''"
  by (simp add: split_into_chunks_def py_split_def py_isspace_def len_def)

text \<open>
  As raw strings: the chunks that are not empty, joined with single spaces, are the words
  of the text joined with single spaces.
\<close>

lemma py_join_eq_Nil:
  "list_all (\<lambda>x. x \<noteq> []) xs \<Longrightarrow> py_join sep xs = [] \<longleftrightarrow> xs = []"
  by (induction sep xs rule: py_join.induct) auto

lemma py_join_append:
  "py_join sep (xs @ ys) =
     (if xs = [] then py_join sep ys else if ys = [] then py_join sep xs
      else py_join sep xs @ sep @ py_join sep ys)"
  by (induction sep xs rule: py_join.induct) (auto simp: neq_Nil_conv)

lemma py_join_Cons:
  "py_join sep (x # xs) = (if xs = [] then x else x @ sep @ py_join sep xs)"
  by (cases xs) auto

lemma is_word_nonempty: "list_all is_word ws \<Longrightarrow> list_all (\<lambda>x. x \<noteq> []) ws"
  by (induction ws) (auto simp: is_word_def)

lemma chunk_loop_join:
  "list_all is_word current_chunk \<Longrightarrow> list_all is_word words \<Longrightarrow>
   py_join [32] (filter (\<lambda>c. c \<noteq> []) (chunk_loop max_length words chunks current_chunk n)) =
   py_join [32] (filter (\<lambda>c. c \<noteq> []) chunks @ current_chunk @ words)"
proof (induction words arbitrary: chunks current_chunk n)
  case Nil
  then show ?case
    using py_join_eq_Nil [OF is_word_nonempty, of current_chunk "[32]"]
    by (auto simp: py_join_append)
next
  case (Cons word words)
  have w: "word \<noteq> []" using Cons.prems by (simp add: is_word_def)
  show ?case
  proof (cases "n + len word \<le> max_length")
    case True
    with Cons show ?thesis by simp
  next
    case False
    have "py_join [32] (filter (\<lambda>c. c \<noteq> [])
            (chunk_loop max_length words (chunks @ [py_join [32] current_chunk]) [word]
               (len word + 1))) =
          py_join [32]
            (filter (\<lambda>c. c \<noteq> []) (chunks @ [py_join [32] current_chunk]) @ [word] @ words)"
      using Cons.prems by (intro Cons.IH) simp_all
    also have "\<dots> =
          py_join [32] (filter (\<lambda>c. c \<noteq> []) chunks @ current_chunk @ word # words)"
      using py_join_eq_Nil [OF is_word_nonempty, of current_chunk "[32]"] Cons.prems w
      by (auto simp: py_join_append py_join_Cons)
    finally show ?thesis using False by simp
  qed
qed

lemma split_into_chunks_join_nonempty:
  "py_join (str '' '') (filter (\<lambda>c. c \<noteq> []) (split_into_chunks text max_length)) =
   py_join (str '' '') (py_split text)"
  using chunk_loop_join [of "[]" "py_split text" max_length "[]" 0]
  by (simp add: split_into_chunks_def py_split_are_words)

section \<open>Chunker: the length limit\<close>

lemma within_limit_join:
  "list_all is_word ws \<Longrightarrow> length ws \<le> 1 \<or> len (py_join [32] ws) \<le> max_length \<Longrightarrow>
   0 \<le> max_length \<or> ws \<noteq> [] \<Longrightarrow> within_limit max_length (py_join [32] ws)"
  by (cases ws) (auto simp: within_limit_def py_split_join_words len_def)

text \<open>
  The invariant of the loop: \<open>current_length\<close> is the length of the joined
  \<open>current_chunk\<close> plus one separator (0 while it is empty), and a \<open>current_chunk\<close> of two
  or more words fits.
\<close>

lemma chunk_loop_within_limit:
  "list_all is_word current_chunk \<Longrightarrow> list_all is_word words \<Longrightarrow> 0 \<le> max_length \<Longrightarrow>
   list_all (within_limit max_length) chunks \<Longrightarrow>
   n = (if current_chunk = [] then 0 else len (py_join [32] current_chunk) + 1) \<Longrightarrow>
   length current_chunk \<le> 1 \<or> len (py_join [32] current_chunk) \<le> max_length \<Longrightarrow>
   list_all (within_limit max_length) (chunk_loop max_length words chunks current_chunk n)"
proof (induction words arbitrary: chunks current_chunk n)
  case Nil
  then show ?case by (simp add: within_limit_join)
next
  case (Cons word words)
  show ?case
  proof (cases "n + len word \<le> max_length")
    case True
    have "list_all (within_limit max_length)
            (chunk_loop max_length words chunks (current_chunk @ [word]) (n + (len word + 1)))"
    proof (rule Cons.IH)
      show "list_all is_word (current_chunk @ [word])" using Cons.prems by simp
      show "list_all is_word words" using Cons.prems by simp
      show "0 \<le> max_length" by fact
      show "list_all (within_limit max_length) chunks" by fact
      show "n + (len word + 1) =
              (if current_chunk @ [word] = [] then 0
               else len (py_join [32] (current_chunk @ [word])) + 1)"
        using Cons.prems(5) by (auto simp: py_join_snoc len_def)
      show "length (current_chunk @ [word]) \<le> 1 \<or>
              len (py_join [32] (current_chunk @ [word])) \<le> max_length"
        using Cons.prems(5) True by (auto simp: py_join_snoc len_def)
    qed
    with True show ?thesis by simp
  next
    case False
    have "list_all (within_limit max_length)
            (chunk_loop max_length words (chunks @ [py_join [32] current_chunk]) [word]
               (len word + 1))"
    proof (rule Cons.IH)
      show "list_all is_word [word]" using Cons.prems by simp
      show "list_all is_word words" using Cons.prems by simp
      show "0 \<le> max_length" by fact
      show "list_all (within_limit max_length) (chunks @ [py_join [32] current_chunk])"
        using Cons.prems by (simp add: within_limit_join)
      show "len word + 1 = (if [word] = [] then 0 else len (py_join [32] [word]) + 1)"
        by simp
      show "length [word] \<le> 1 \<or> len (py_join [32] [word]) \<le> max_length" by simp
    qed
    with False show ?thesis by simp
  qed
qed

text \<open>For a limit that is not negative every chunk respects it.\<close>

lemma split_into_chunks_within_limit:
  "0 \<le> max_length \<Longrightarrow>
   list_all (within_limit max_length) (split_into_chunks text max_length)"
  using chunk_loop_within_limit [of "[]" "py_split text" max_length "[]" 0]
  by (simp add: split_into_chunks_def py_split_are_words)

lemma empty_chunk_exceeds_negative_limit: "\<not> within_limit (- 1) []"
  by (simp add: within_limit_def len_def py_split_Nil)

text \<open>
  C7 (at the input where the code departs from it). With \<open>max_length = -1\<close> the text
  \<open>"a"\<close> gives \<open>["", "a"]\<close>: the first chunk is longer than the limit (\<open>0 > -1\<close>) and holds
  no word, where the claim asks for exactly one. It is the empty chunk of C4.
\<close>

theorem split_a_negative_limit_leading_empty_chunk:
  "split_into_chunks (str ''a'') (- 1) = [[], str ''a'']"
  by (simp add: split_into_chunks_def py_split_def py_isspace_def len_def)

section \<open>Ranker: how many chunks\<close>

lemma length_py_slice_to:
  "length (py_slice_to k xs) =
     (if 0 \<le> k then min (nat k) (length xs) else nat (int (length xs) + k))"
  by (auto simp: py_slice_to_def)

lemma prefix_py_slice_to: "prefix (py_slice_to k xs) xs"
  by (simp add: py_slice_to_def take_is_prefix)

lemma length_scored_chunks: "length (scored_chunks sv query) = length (collection sv)"
  by (simp add: scored_chunks_def Let_def)

lemma length_retrieve:
  "length (retrieve_relevant_chunks sv query top_k) =
     (if 0 \<le> top_k then min (nat top_k) (length (collection sv))
      else nat (int (length (collection sv)) + top_k))"
  by (simp add: retrieve_relevant_chunks_def ranked_chunks_def length_py_slice_to
      py_sorted_reverse_def length_scored_chunks)

text \<open>
  C2 (as the code computes it). For \<open>top_k \<ge> 0\<close> the result has exactly
  \<open>min(top_k, |collection|)\<close> entries; for \<open>top_k < 0\<close> the slice \<open>chunks[:top_k]\<close> drops
  the last \<open>-top_k\<close> entries of the ranking, so the result has \<open>max(|collection| + top_k, 0)\<close>
  entries. The result is empty for \<open>top_k = 0\<close> and for an empty collection, and the
  function raises nothing.
\<close>

theorem retrieve_relevant_chunks_length:
  "length (retrieve_relevant_chunks sv query top_k) =
     (if 0 \<le> top_k then min (nat top_k) (length (collection sv))
      else nat (int (length (collection sv)) + top_k)) \<and>
   retrieve_relevant_chunks sv query 0 = [] \<and>
   retrieve_relevant_chunks (sv\<lparr>collection := []\<rparr>) query top_k = []"
proof -
  have none_asked: "retrieve_relevant_chunks sv query 0 = []"
    using length_retrieve [of sv query 0] by simp
  have none_stored: "retrieve_relevant_chunks (sv\<lparr>collection := []\<rparr>) query top_k = []"
    using length_retrieve [of "sv\<lparr>collection := []\<rparr>" query top_k]
    by (simp split: if_splits)
  show ?thesis
    by (simp add: none_asked none_stored length_retrieve)
qed

lemma sample_scored:
  "scored_chunks (sample_services pipeline three_records) query =
     [(str ''one'', 1), (str ''two'', 0), (str ''three'', 3 / 5)]"
  by (simp add: scored_chunks_def sample_services_def three_records_def encode_east_def dot_def)

lemma sample_sorted:
  "py_sorted_reverse snd (scored_chunks (sample_services pipeline three_records) query) =
     [(str ''one'', 1), (str ''three'', 3 / 5), (str ''two'', 0)]"
  by (simp add: sample_scored py_sorted_reverse_def)

text \<open>
  C2 (as stated) fails for a negative \<open>top_k\<close>: with three records and \<open>top_k = -1\<close> the
  result is not empty, it is the ranking without its last entry.
\<close>

theorem retrieve_negative_top_k_not_empty:
  "retrieve_relevant_chunks (sample_services answer_briefly three_records) (str ''Who?'') (- 1) =
     [str ''one'', str ''three'']"
  by (simp add: retrieve_relevant_chunks_def ranked_chunks_def sample_sorted py_slice_to_def)

section \<open>Ranker: order of the result\<close>

lemma py_sorted_reverse_stable:
  "filter (\<lambda>x. key x = s) (py_sorted_reverse key xs) = filter (\<lambda>x. key x = s) xs"
  using sort_key_stable [of "\<lambda>x. - key x" "- s" xs]
  by (simp add: py_sorted_reverse_def)

lemma py_sorted_reverse_descending:
  "sorted_wrt (\<lambda>x y. key y \<le> key x) (py_sorted_reverse key xs)"
proof -
  have "sorted (map (\<lambda>x. - key x) (sort_key (\<lambda>x. - key x) xs))"
    by (rule sorted_sort_key)
  then show ?thesis
    by (simp add: py_sorted_reverse_def sorted_map)
qed

text \<open>The ranked pairs are in order of non-increasing similarity.\<close>

lemma ranked_chunks_descending:
  "sorted_wrt (\<lambda>x y. snd y \<le> snd x) (ranked_chunks sv query top_k)"
  by (simp add: ranked_chunks_def py_slice_to_def py_sorted_reverse_descending)

text \<open>
  C8. For every similarity \<open>s\<close>, the ranked pairs that scored \<open>s\<close> are, in this order, an
  initial part of the records that scored \<open>s\<close> in the order of the collection's
  enumeration: records with identical scores keep their relative order, and the cut at
  \<open>top_k\<close> removes only the later ones.
\<close>

theorem ranked_chunks_ties_keep_order:
  "prefix (filter (\<lambda>p. snd p = s) (ranked_chunks sv query top_k))
          (filter (\<lambda>p. snd p = s) (scored_chunks sv query))"
proof -
  have "prefix (filter (\<lambda>p. snd p = s) (ranked_chunks sv query top_k))
          (filter (\<lambda>p. snd p = s) (py_sorted_reverse snd (scored_chunks sv query)))"
    unfolding ranked_chunks_def by (rule filter_mono_prefix) (rule prefix_py_slice_to)
  then show ?thesis by (simp add: py_sorted_reverse_stable)
qed

text \<open>A run with a tie: the two records that score 1 stay in the order of the collection.\<close>

lemma ranked_chunks_tied_records:
  "ranked_chunks (sample_services pipeline tied_records) query 2 =
     [(str ''first'', 1), (str ''last'', 1)]"
  by (simp add: ranked_chunks_def scored_chunks_def py_sorted_reverse_def py_slice_to_def
      sample_services_def tied_records_def encode_east_def dot_def)

section \<open>Answer orchestration: the empty collection\<close>

lemma relevant_chunks_empty: "collection sv = [] \<Longrightarrow> relevant_chunks sv query = []"
  by (simp add: relevant_chunks_def retrieve_relevant_chunks_def ranked_chunks_def
      scored_chunks_def py_sorted_reverse_def py_slice_to_def)

text \<open>
  Over an empty collection the operation has two outcomes only: the \<open>IndexError\<close> of
  \<open>relevant_chunks[0]\<close> when the generated text is shorter than 10, and the generated text
  as it is otherwise. Neither is an outcome of its own for the missing context.
\<close>

lemma answer_question_empty_collection:
  "collection sv = [] \<Longrightarrow>
   answer_question sv query =
     (if len (generated_text sv query) < 10 then Inl IndexError
      else Inr (generated_text sv query))"
  by (simp add: answer_question_def relevant_chunks_empty)

lemma generated_text_nothing:
  "generated_text (sample_services answer_nothing records) query = []"
  by (simp add: generated_text_def sample_services_def answer_nothing_def)

lemma generated_text_briefly:
  "generated_text (sample_services answer_briefly records) query = str ''Harry.''"
  by (simp add: generated_text_def sample_services_def answer_briefly_def)

lemma generated_text_at_length:
  "generated_text (sample_services answer_at_length records) query = str ''Harry is a wizard.''"
  by (simp add: generated_text_def sample_services_def answer_at_length_def)

lemma collection_sample [simp]: "collection (sample_services pipeline records) = records"
  by (simp add: sample_services_def)

text \<open>
  C1 (at the input where the code departs from it). The collection is empty and the
  pipeline generates the empty text: the fallback branch evaluates \<open>relevant_chunks[0]\<close>
  on the empty list and the operation fails with \<open>IndexError\<close>, where the claim asks for
  a "no context available" outcome.
\<close>

theorem answer_question_empty_collection_raises:
  "answer_question (sample_services answer_nothing []) (str ''Who is Harry Potter?'') =
     Inl IndexError"
  by (simp add: answer_question_empty_collection generated_text_nothing len_def)

lemma answer_question_empty_collection_long_text:
  "answer_question (sample_services answer_at_length []) (str ''Who is Harry Potter?'') =
     Inr (str ''Harry is a wizard.'')"
  by (simp add: answer_question_empty_collection generated_text_at_length len_def)

section \<open>Answer orchestration: the short-answer fallback\<close>


lemma sample_relevant:
  "relevant_chunks (sample_services pipeline three_records) query =
     [str ''one'', str ''three'', str ''two'']"
  by (simp add: relevant_chunks_def retrieve_relevant_chunks_def ranked_chunks_def
      sample_sorted py_slice_to_def)




text \<open>
  The text of the fallback. When the generated text is shorter than 10 characters and the
  ranked result starts with \<open>fallback_chunk\<close>, the returned text is the generated text,
  then the literal \<open>" (Additional context: "\<close>, then the first 200 characters of
  \<open>fallback_chunk\<close> (all of it when it is shorter), then \<open>"...)"\<close>; the excerpt is never
  longer than 200.
\<close>

lemma answer_question_fallback_text:
  "relevant_chunks sv query = fallback_chunk # rest \<Longrightarrow>
   len (generated_text sv query) < 10 \<Longrightarrow>
   answer_question sv query =
     Inr (generated_text sv query @ str '' (Additional context: '' @
          take 200 fallback_chunk @ str ''...)'') \<and>
   length (take 200 fallback_chunk) \<le> 200"
  by (simp add: answer_question_def py_slice_to_def)

text \<open>
  Two runs of the fallback. Over three records enumerated with the best-scoring one last,
  the excerpt is that record's content \<open>"one"\<close>; over the record of 250 characters the
  excerpt is cut at 200.
\<close>

lemma best_last_relevant:
  "relevant_chunks (sample_services pipeline records_best_last) query =
     [str ''one'', str ''three'', str ''two'']"
  by (simp add: relevant_chunks_def retrieve_relevant_chunks_def ranked_chunks_def
      scored_chunks_def py_sorted_reverse_def py_slice_to_def sample_services_def
      records_best_last_def encode_east_def dot_def)

lemma answer_question_fallback_best_last:
  "answer_question (sample_services answer_briefly records_best_last)
     (str ''Who is Harry Potter?'') =
     Inr (str ''Harry. (Additional context: one...)'')"
  using answer_question_fallback_text
    [of "sample_services answer_briefly records_best_last" "str ''Who is Harry Potter?''"
        "str ''one''" "[str ''three'', str ''two'']"]
  by (simp add: best_last_relevant generated_text_briefly len_def)

lemma long_relevant:
  "relevant_chunks (sample_services pipeline long_record) query = [replicate 250 120]"
  by (simp add: relevant_chunks_def retrieve_relevant_chunks_def ranked_chunks_def
      scored_chunks_def py_sorted_reverse_def py_slice_to_def long_record_def)

lemma answer_question_fallback_long_record:
  "answer_question (sample_services answer_briefly long_record) (str ''Who is Harry Potter?'') =
     Inr (str ''Harry. (Additional context: '' @ replicate 200 120 @ str ''...)'')"
  using answer_question_fallback_text
    [of "sample_services answer_briefly long_record" "str ''Who is Harry Potter?''"
        "replicate 250 120" "[]"]
  by (simp add: long_relevant generated_text_briefly len_def)

text \<open>
  C10 (at the input where the code departs from it). Over an empty collection, whatever
  the other collaborators and the query are, a pipeline that generates \<open>"Harry."\<close> (6
  characters, shorter than 10) triggers the fallback, and the operation raises
  \<open>IndexError\<close> at \<open>relevant_chunks[0]\<close>: no text is returned, where the claim says that the
  returned text is the generated text followed by the bounded excerpt. It is the missing
  guard of C1.
\<close>

theorem answer_question_fallback_without_chunk_raises:
  "answer_question (sv\<lparr>collection := [], qa_pipeline := answer_briefly\<rparr>) query =
     Inl IndexError"
proof -
  let ?sv = "sv\<lparr>collection := [], qa_pipeline := answer_briefly\<rparr>"
  have generated: "generated_text ?sv query = str ''Harry.''"
    by (simp add: generated_text_def answer_briefly_def)
  have "collection ?sv = []" by simp
  then show ?thesis
    by (simp add: answer_question_empty_collection generated len_def)
qed

end
